theory Spec2Isabelle
  imports Main
begin

section \<open>Strings and paths\<close>

text \<open>
  Python strings are modelled as \<open>string\<close> (ASCII). A relative path is the list of its
  components; \<open>str(path)\<close> joins them with the separator \<open>/\<close>.
\<close>

type_synonym path = "string list"

definition sep :: char where
  "sep = CHR ''/''"

text \<open>\<open>s.split(c)\<close>: never empty, \<open>''.split('/') == ['']\<close>.\<close>

fun split_on :: "char \<Rightarrow> string \<Rightarrow> string list" where
  "split_on c [] = [[]]"
| "split_on c (x # xs) =
     (if x = c then [] # split_on c xs
      else (case split_on c xs of
              [] \<Rightarrow> [[x]]
            | w # ws \<Rightarrow> (x # w) # ws))"

text \<open>\<open>str(Path(a) / b / c)\<close> for a relative path given by its components.\<close>

fun path_str :: "path \<Rightarrow> string" where
  "path_str [] = ''.''"
| "path_str [x] = x"
| "path_str (x # y # ys) = x @ sep # path_str (y # ys)"

text \<open>\<open>os.path.basename\<close>: what follows the last separator.\<close>

definition basename :: "string \<Rightarrow> string" where
  "basename p = last (split_on sep p)"

definition startswith :: "string \<Rightarrow> string \<Rightarrow> bool" where
  "startswith s p = (take (length p) s = p)"

definition endswith :: "string \<Rightarrow> string \<Rightarrow> bool" where
  "endswith s p = (length p \<le> length s \<and> drop (length s - length p) s = p)"

text \<open>\<open>str.lower\<close> on ASCII letters.\<close>

definition lower_char :: "char \<Rightarrow> char" where
  "lower_char c =
     (if 65 \<le> (of_char c :: nat) \<and> (of_char c :: nat) \<le> 90
      then char_of ((of_char c :: nat) + 32) else c)"

definition lower :: "string \<Rightarrow> string" where
  "lower s = map lower_char s"

text \<open>\<open>str.rfind\<close> of a character: the index of its last occurrence.\<close>

definition rfind :: "char \<Rightarrow> string \<Rightarrow> nat option" where
  "rfind c s =
     (if c \<in> set s
      then Some (length s - 1 - length (takeWhile (\<lambda>x. x \<noteq> c) (rev s)))
      else None)"

text \<open>
  \<open>PurePath.suffix\<close> of a file name: \<open>i = name.rfind('.')\<close>, and \<open>name[i:]\<close> when
  \<open>0 < i < len(name) - 1\<close>, else the empty string.
\<close>

definition suffix :: "string \<Rightarrow> string" where
  "suffix name =
     (case rfind CHR ''.'' name of
        None \<Rightarrow> []
      | Some i \<Rightarrow> if 0 < i \<and> i < length name - 1 then drop i name else [])"

datatype os_error = OSError

section \<open>Smart deduplication policy (dedup.py, SmartDeduplicator)\<close>

definition SKIP_DEDUP_EXTENSIONS :: "string list" where
  "SKIP_DEDUP_EXTENSIONS =
     [''.zip'', ''.gz'', ''.bz2'', ''.xz'', ''.7z'', ''.rar'',
      ''.jpg'', ''.jpeg'', ''.png'', ''.gif'', ''.webp'',
      ''.mp3'', ''.mp4'', ''.avi'', ''.mkv'', ''.mov'',
      ''.pdf'',
      ''.exe'', ''.dll'', ''.so'', ''.dylib'',
      ''.db'', ''.sqlite'', ''.mdb'']"

definition MIN_DEDUP_SIZE :: nat where
  "MIN_DEDUP_SIZE = 1024"

text \<open>
  \<open>should_deduplicate(file_path)\<close>. The first argument is the outcome of
  \<open>file_path.stat().st_size\<close> (an \<open>OSError\<close> or the size), the second the file's name.
\<close>

definition should_deduplicate :: "os_error + nat \<Rightarrow> string \<Rightarrow> bool" where
  "should_deduplicate st_size name =
     (case st_size of
        Inl _ \<Rightarrow> False
      | Inr file_size \<Rightarrow>
          if file_size < MIN_DEDUP_SIZE then False
          else if lower (suffix name) \<in> set SKIP_DEDUP_EXTENSIONS then False
          else True)"

section \<open>Content store (dedup.py, DeduplicationStore)\<close>

text \<open>
  An index entry. \<open>first_seen\<close> (a wall-clock stamp) is left out; \<open>chunk_path\<close> is the
  chunk's path relative to the store directory.
\<close>

record chunk_entry =
  size :: nat
  refs :: "string list"
  ref_count :: nat
  chunk_path :: string

record dedup_stats =
  total_stored :: int
  total_deduplicated :: int
  space_saved :: int

text \<open>
  The store: the index document (hash to entry), the chunk files on disk (keyed by the
  hash, which \<open>_get_chunk_path\<close> turns into \<open>chunks/<hash[:2]>/<hash>\<close>) with their bytes,
  and the stats document.
\<close>

record dedup_store =
  index :: "string \<rightharpoonup> chunk_entry"
  chunks :: "string \<rightharpoonup> string"
  stats :: dedup_stats

definition init_store :: dedup_store where
  "init_store =
     \<lparr>index = Map.empty, chunks = Map.empty,
      stats = \<lparr>total_stored = 0, total_deduplicated = 0, space_saved = 0\<rparr>\<rparr>"

text \<open>
  A source file as \<open>store_file\<close> sees it: whether \<open>exists() and is_file()\<close> holds, and
  the bytes that \<open>open(file_path, 'rb')\<close> reads (\<open>None\<close> when it raises \<open>IOError\<close>).
\<close>

record src_file =
  is_file :: bool
  data :: "string option"

text \<open>Whether a call into the file system (\<open>shutil.copy2\<close>, \<open>unlink\<close>) raises \<open>OSError\<close>.\<close>

datatype fs_outcome = Succeeds | Raises

record file_meta =
  meta_hash :: string
  meta_size :: nat
  deduplicated :: bool

definition get_chunk_path :: "string \<Rightarrow> string" where
  "get_chunk_path content_hash =
     ''chunks/'' @ take 2 content_hash @ ''/'' @ content_hash"

text \<open>
  \<open>store_file(file_path, backup_id)\<close>; \<open>H\<close> is the digest (\<open>hashlib.sha256\<close>),
  \<open>copy\<close> the outcome of \<open>shutil.copy2\<close>. \<open>list(set(refs) | {backup_id})\<close> is a list of
  the distinct owners, in no specified order.
\<close>

definition store_file ::
  "(string \<Rightarrow> string) \<Rightarrow> fs_outcome \<Rightarrow> src_file \<Rightarrow> string \<Rightarrow> dedup_store
     \<Rightarrow> file_meta option \<times> dedup_store" where
  "store_file H copy f backup_id st =
     (if \<not> is_file f then (None, st)
      else case data f of
        None \<Rightarrow> (None, st)
      | Some bytes \<Rightarrow>
          let content_hash = H bytes in
          if content_hash = [] then (None, st)
          else
            let file_size = length bytes in
            (case index st content_hash of
               Some e \<Rightarrow>
                 let refs' = remdups (backup_id # refs e);
                     e' = e\<lparr>refs := refs', ref_count := length refs'\<rparr>;
                     st' = st\<lparr>index := (index st)(content_hash \<mapsto> e'),
                              stats := (stats st)
                                \<lparr>total_deduplicated :=
                                   total_deduplicated (stats st) + int file_size,
                                 space_saved := space_saved (stats st) + int file_size\<rparr>\<rparr>
                 in (Some \<lparr>meta_hash = content_hash, meta_size = file_size,
                           deduplicated = (1 < ref_count e')\<rparr>, st')
             | None \<Rightarrow>
                 (case copy of
                    Raises \<Rightarrow> (None, st)
                  | Succeeds \<Rightarrow>
                      let e' = \<lparr>size = file_size, refs = [backup_id], ref_count = 1,
                                chunk_path = get_chunk_path content_hash\<rparr>;
                          st' = st\<lparr>index := (index st)(content_hash \<mapsto> e'),
                                   chunks := (chunks st)(content_hash \<mapsto> bytes),
                                   stats := (stats st)
                                     \<lparr>total_stored :=
                                        total_stored (stats st) + int file_size\<rparr>\<rparr>
                      in (Some \<lparr>meta_hash = content_hash, meta_size = file_size,
                                deduplicated = (1 < ref_count e')\<rparr>, st'))))"


text \<open>\<open>retrieve_file(content_hash, destination)\<close>: the bytes copied to the destination.\<close>

definition retrieve_file :: "string \<Rightarrow> dedup_store \<Rightarrow> string option" where
  "retrieve_file content_hash st =
     (case index st content_hash of
        None \<Rightarrow> None
      | Some _ \<Rightarrow> chunks st content_hash)"











section \<open>Daemon IPC (daemon.py, SaviorDaemon)\<close>

text \<open>
  A decoded JSON value; an object is the list of its items (keys distinct, as in the
  \<open>dict\<close> that \<open>json.loads\<close> builds).
\<close>

datatype json =
    JNull
  | JBool bool
  | JNum int
  | JStr string
  | JArr "json list"
  | JObj "(string \<times> json) list"

text \<open>
  What \<open>json.loads(client.recv(max_request_size).decode('utf-8'))\<close> comes to: one of
  the three exceptions of that line, or the decoded value.
\<close>

datatype request_input =
    Recv_timeout
  | Bad_utf8
  | Bad_json
  | Parsed json

datatype handler_call =
    Add_project json json
  | Remove_project json
  | List_projects
  | Get_status
  | Stop

text \<open>
  What is observed of one connection: that \<open>_process_command\<close> was entered with a
  command, and each handler it called.
\<close>

datatype event =
    Process_command "(string \<times> json) list"
  | Handler handler_call

text \<open>
  A response: \<open>{'error': msg}\<close>, \<open>{'error': f'Unknown command: {cmd_type}'}\<close>,
  \<open>{'status': 'stopping'}\<close>, or the dictionary a handler returned.
\<close>

datatype response =
    Error_msg string
  | Unknown_command "json option"
  | Status_stopping
  | From_handler json

text \<open>
  The handlers (\<open>_add_project\<close>, \<open>_remove_project\<close>, \<open>_list_projects\<close>, \<open>_get_status\<close>,
  \<open>stop\<close>) are a parameter: the dictionary a call returns, or \<open>None\<close> when it raises.
\<close>

type_synonym handlers = "handler_call \<Rightarrow> json option"

definition call_handler :: "handlers \<Rightarrow> handler_call \<Rightarrow> response option \<times> event list" where
  "call_handler run c = (map_option From_handler (run c), [Handler c])"

text \<open>
  \<open>_process_command(command)\<close>: the response (\<open>None\<close> when an exception escapes, as the
  \<open>KeyError\<close> of \<open>command['path']\<close>) and the handlers called.
\<close>

definition process_command ::
  "handlers \<Rightarrow> (string \<times> json) list \<Rightarrow> response option \<times> event list" where
  "process_command run command =
     (let cmd_type = map_of command ''type'' in
      if cmd_type = Some (JStr ''add_project'') then
        (case map_of command ''path'' of
           None \<Rightarrow> (None, [])
         | Some p \<Rightarrow>
             call_handler run
               (Add_project p
                  (case map_of command ''options'' of None \<Rightarrow> JObj [] | Some opts \<Rightarrow> opts)))
      else if cmd_type = Some (JStr ''remove_project'') then
        (case map_of command ''path'' of
           None \<Rightarrow> (None, [])
         | Some p \<Rightarrow> call_handler run (Remove_project p))
      else if cmd_type = Some (JStr ''list_projects'') then call_handler run List_projects
      else if cmd_type = Some (JStr ''status'') then call_handler run Get_status
      else if cmd_type = Some (JStr ''stop'') then
        (case run Stop of
           None \<Rightarrow> (None, [Handler Stop])
         | Some _ \<Rightarrow> (Some Status_stopping, [Handler Stop]))
      else (Some (Unknown_command cmd_type), []))"

text \<open>
  \<open>_handle_client(client)\<close>: the response sent and the events of the connection.
  \<open>command.get\<close> on a decoded value that is not an object raises \<open>AttributeError\<close>, which
  the last \<open>except\<close> clause turns into \<open>Internal error\<close>.
\<close>

definition handle_client ::
  "string \<Rightarrow> handlers \<Rightarrow> request_input \<Rightarrow> response \<times> event list" where
  "handle_client auth_token run input =
     (case input of
        Recv_timeout \<Rightarrow> (Error_msg ''Request timeout'', [])
      | Bad_utf8 \<Rightarrow> (Error_msg ''Internal error'', [])
      | Bad_json \<Rightarrow> (Error_msg ''Invalid JSON'', [])
      | Parsed (JObj command) \<Rightarrow>
          if map_of command ''auth'' \<noteq> Some (JStr auth_token)
          then (Error_msg ''Authentication failed'', [])
          else
            (case process_command run command of
               (None, evs) \<Rightarrow> (Error_msg ''Internal error'', Process_command command # evs)
             | (Some r, evs) \<Rightarrow> (r, Process_command command # evs))
      | Parsed _ \<Rightarrow> (Error_msg ''Internal error'', []))"

text \<open>A request bears the token when it decodes to an object whose \<open>auth\<close> is the token.\<close>

definition bears_token :: "string \<Rightarrow> request_input \<Rightarrow> bool" where
  "bears_token auth_token input =
     (case input of
        Parsed (JObj command) \<Rightarrow> map_of command ''auth'' = Some (JStr auth_token)
      | _ \<Rightarrow> False)"

section \<open>The project directory\<close>

text \<open>
  The regular files below the project directory, each under its path relative to the
  project directory (an association list with distinct keys; directories are the proper
  prefixes of the keys). A file has its bytes, whether the process may read it
  (\<open>os.access(p, os.R_OK)\<close>), and its mode bits.
\<close>

record fnode =
  content :: string
  readable :: bool
  mode :: nat

type_synonym tree = "(path \<times> fnode) list"

section \<open>Ignore engine (core.py, SaviorIgnore)\<close>






text \<open>
  \<open>should_ignore(path)\<close>. The matcher \<open>fnmatch.fnmatch(name, pattern)\<close> is a parameter.
\<close>

type_synonym matcher = "string \<Rightarrow> string \<Rightarrow> bool"

fun should_ignore :: "matcher \<Rightarrow> string list \<Rightarrow> string \<Rightarrow> bool" where
  "should_ignore fnmatch [] path = False"
| "should_ignore fnmatch (pattern # patterns) path =
     (if fnmatch path pattern \<or> fnmatch (basename path) pattern then True
      else if endswith pattern ''/'' \<and> butlast pattern \<in> set (split_on sep path) then True
      else should_ignore fnmatch patterns path)"

section \<open>File collection (core.py, Savior._collect_files)\<close>

text \<open>
  \<open>os.walk\<close> goes top down, and the loop body removes from \<open>dirs\<close> every directory
  \<open>d\<close> with \<open>should_ignore(str(rel_root / d))\<close>; so the walk enters a directory exactly
  when none of the directories on the way to it (itself included) is ignored.
\<close>

definition walk_enters :: "(string \<Rightarrow> bool) \<Rightarrow> path \<Rightarrow> bool" where
  "walk_enters ignored root =
     list_all (\<lambda>k. \<not> ignored (path_str (take k root))) [1..<Suc (length root)]"

definition MAX_FILE_SIZE :: nat where
  "MAX_FILE_SIZE = 100 * 1024 * 1024"

text \<open>
  \<open>_collect_files()\<close>: the files in the directories the walk enters that are not
  ignored, are below the size ceiling and are readable (as relative paths; the source
  returns \<open>project_dir / rel_path\<close>).
\<close>

definition collect_files :: "matcher \<Rightarrow> string list \<Rightarrow> tree \<Rightarrow> path list" where
  "collect_files fnmatch patterns t =
     map fst
       (filter
          (\<lambda>(p, f). p \<noteq> []
             \<and> walk_enters (should_ignore fnmatch patterns) (butlast p)
             \<and> \<not> should_ignore fnmatch patterns (path_str p)
             \<and> length (content f) < MAX_FILE_SIZE \<and> readable f)
          t)"

section \<open>Archives (tarfile)\<close>

text \<open>
  A tar archive: whether it is gzip-compressed, and its regular-file members in order,
  each with its name, bytes and mode. A gzip stream holds the same members at every
  compression level.
\<close>

record tar_member =
  m_name :: string
  m_data :: string
  m_mode :: nat

record archive =
  gz :: bool
  members :: "tar_member list"

section \<open>Full backup (core.py, Savior.create_backup)\<close>




section \<open>Deduplicated backup (core_dedup.py, SaviorWithDedup)\<close>

text \<open>The manifest of a deduplicated backup: its id and \<open>str(rel_path)\<close> to metadata.\<close>

record manifest =
  backup_id :: string
  files :: "(string \<times> file_meta) list"

text \<open>
  One round of the loop of \<open>create_backup_dedup\<close> over the collected files: a file that
  \<open>should_deduplicate\<close> accepts goes to \<open>store_file\<close> and, when that returns metadata,
  into \<open>dedup_files\<close>; any other file is only counted as skipped.
\<close>

definition dedup_step ::
  "(string \<Rightarrow> string) \<Rightarrow> (path \<Rightarrow> fs_outcome) \<Rightarrow> string \<Rightarrow> tree
     \<Rightarrow> (string \<times> file_meta) list \<times> dedup_store \<Rightarrow> path
     \<Rightarrow> (string \<times> file_meta) list \<times> dedup_store" where
  "dedup_step H copy bid t acc p =
     (case map_of t p of
        None \<Rightarrow> acc
      | Some f \<Rightarrow>
          if should_deduplicate (Inr (length (content f))) (last p) then
            (case store_file H (copy p)
                    \<lparr>is_file = True,
                     data = (if readable f then Some (content f) else None)\<rparr>
                    bid (snd acc) of
               (Some m, st') \<Rightarrow> (fst acc @ [(path_str p, m)], st')
             | (None, st') \<Rightarrow> (fst acc, st'))
          else acc)"

definition create_backup_dedup ::
  "matcher \<Rightarrow> string list \<Rightarrow> bool \<Rightarrow> (string \<Rightarrow> string) \<Rightarrow> (path \<Rightarrow> fs_outcome)
     \<Rightarrow> string \<Rightarrow> tree \<Rightarrow> dedup_store \<Rightarrow> (manifest \<times> dedup_store) option" where
  "create_backup_dedup fnmatch patterns has_space H copy bid t st =
     (let files = collect_files fnmatch patterns t in
      if files = [] then None
      else if \<not> has_space then None
      else
        (case foldl (dedup_step H copy bid t) ([], st) files of
           (dedup_files, st') \<Rightarrow> Some (\<lparr>backup_id = bid, files = dedup_files\<rparr>, st')))"

text \<open>A collected path whose file the policy accepts.\<close>

definition eligible :: "tree \<Rightarrow> path \<Rightarrow> bool" where
  "eligible t p =
     (case map_of t p of
        None \<Rightarrow> False
      | Some f \<Rightarrow>
          MIN_DEDUP_SIZE \<le> length (content f)
          \<and> lower (suffix (last p)) \<notin> set SKIP_DEDUP_EXTENSIONS)"

section \<open>Extraction with the data filter (tarfile)\<close>

text \<open>
  Where \<open>tar.extractall(dest, filter='data')\<close> puts a member, as the standard library
  documents the filter: leading separators of the name are stripped, the name is joined
  to the destination and resolved, and a result outside the destination is refused
  (\<open>OutsideDestinationError\<close>). The resolution is lexical: empty and \<open>.\<close> components are
  dropped, \<open>..\<close> goes one directory up, and going above the destination counts as
  leaving it.
\<close>

datatype tar_error = ReadError | OutsideDestinationError | ExtractError

fun resolve :: "path \<Rightarrow> path \<Rightarrow> path option" where
  "resolve acc [] = Some acc"
| "resolve acc (c # cs) =
     (if c = [] \<or> c = ''.'' then resolve acc cs
      else if c = ''..'' then (if acc = [] then None else resolve (butlast acc) cs)
      else resolve (acc @ [c]) cs)"


text \<open>
  Writing a file at a path of a tree replaces the file that is there, or adds one.
\<close>

fun put :: "path \<Rightarrow> fnode \<Rightarrow> tree \<Rightarrow> tree" where
  "put p f [] = [(p, f)]"
| "put p f ((q, g) # t) = (if q = p then (p, f) # t else (q, g) # put p f t)"


section \<open>Conflict detection (conflicts.py, ConflictDetector)\<close>








section \<open>Restore (core.py, Savior.restore_backup)\<close>









section \<open>Incremental differ (incremental.py, IncrementalBackup)\<close>

record file_info =
  i_hash :: string
  i_mtime :: int
  i_size :: nat

text \<open>
  An \<open>IncrementalBackup\<close> object. \<open>__init__\<close> assigns \<open>backup_dir\<close>, \<open>state_file\<close> (the
  file \<open>file_states.json\<close> of the backup directory) and \<open>file_states\<close>, the dictionary
  loaded from that file; it assigns no \<open>project_dir\<close>, and nothing else in the package
  does. Reading an attribute that was never assigned raises \<open>AttributeError\<close>: the
  field \<open>project_dir\<close> is \<open>None\<close> for it.
\<close>

record incremental_backup =
  backup_dir :: path
  file_states :: "(string \<times> file_info) list"
  project_dir :: "path option"

text \<open>\<open>__init__(backup_dir)\<close>; the second argument is what \<open>_load_states\<close> reads.\<close>

definition incremental_init :: "path \<Rightarrow> (string \<times> file_info) list \<Rightarrow> incremental_backup" where
  "incremental_init dir loaded =
     \<lparr>backup_dir = dir, file_states = loaded, project_dir = None\<rparr>"

text \<open>\<open>PurePath.relative_to\<close>: \<open>None\<close> stands for its \<open>ValueError\<close>.\<close>

definition relative_to :: "path \<Rightarrow> path \<Rightarrow> path option" where
  "relative_to p base =
     (if take (length base) p = base then Some (drop (length base) p) else None)"

fun dict_set :: "string \<Rightarrow> 'v \<Rightarrow> (string \<times> 'v) list \<Rightarrow> (string \<times> 'v) list" where
  "dict_set k v [] = [(k, v)]"
| "dict_set k v ((k', v') # d) = (if k' = k then (k, v) # d else (k', v') # dict_set k v d)"

text \<open>
  One round of the loop of \<open>find_changed_files\<close> over \<open>files\<close> (absolute paths, here
  with the file found there). The whole body is inside \<open>try ... except Exception:
  pass\<close>: an exception of \<open>self.project_dir\<close>, of \<open>relative_to\<close> or of reading the file
  leaves \<open>added\<close>, \<open>modified\<close> and \<open>current_files\<close> as they are.
\<close>

definition changed_step ::
  "incremental_backup \<Rightarrow> (string \<Rightarrow> string) \<Rightarrow> (path \<Rightarrow> int)
     \<Rightarrow> path list \<times> path list \<times> (string \<times> file_info) list \<Rightarrow> path \<times> fnode
     \<Rightarrow> path list \<times> path list \<times> (string \<times> file_info) list" where
  "changed_step self H mtime acc file =
     (case acc of (added, modified, current) \<Rightarrow>
      case file of (file_path, f) \<Rightarrow>
        (case project_dir self of
           None \<Rightarrow> acc
         | Some pd \<Rightarrow>
             (case relative_to file_path pd of
                None \<Rightarrow> acc
              | Some rel \<Rightarrow>
                  if \<not> readable f then acc
                  else
                    let rel_path = path_str rel;
                        info = \<lparr>i_hash = H (content f), i_mtime = mtime file_path,
                                i_size = length (content f)\<rparr>;
                        current' = dict_set rel_path info current
                    in case map_of (file_states self) rel_path of
                         None \<Rightarrow> (added @ [file_path], modified, current')
                       | Some old \<Rightarrow>
                           if i_hash old \<noteq> i_hash info
                           then (added, modified @ [file_path], current')
                           else (added, modified, current'))))"

text \<open>
  \<open>find_changed_files(files)\<close>: \<open>(added, modified, deleted)\<close> and the object with its
  \<open>file_states\<close> replaced by the current files.
\<close>

definition find_changed_files ::
  "(string \<Rightarrow> string) \<Rightarrow> (path \<Rightarrow> int) \<Rightarrow> incremental_backup \<Rightarrow> (path \<times> fnode) list
     \<Rightarrow> (path list \<times> path list \<times> string list) \<times> incremental_backup" where
  "find_changed_files H mtime self file_list =
     (case foldl (changed_step self H mtime) ([], [], []) file_list of
        (added, modified, current) \<Rightarrow>
          ((added, modified,
            filter (\<lambda>k. k \<notin> fst ` set current) (map fst (file_states self))),
           self\<lparr>file_states := current\<rparr>))"

section \<open>Persistence of the documents (dedup.py, core.py)\<close>

text \<open>
  The files of the backup directory by name, with their bytes as they are on disk. A
  document is written in pieces (what the buffered writer of \<open>json.dump\<close> flushes);
  each function below gives the disk after every step it takes, in order, so that what a
  crash between two steps leaves behind can be read off.
\<close>

type_synonym disk = "string \<rightharpoonup> string"

definition index_file :: string where
  "index_file = ''.dedup_store/index.json''"

definition stats_file :: string where
  "stats_file = ''.dedup_store/stats.json''"

definition metadata_file :: string where
  "metadata_file = ''metadata.json''"

text \<open>\<open>open(name, 'w')\<close> creates the file or truncates it to nothing.\<close>

definition open_w :: "string \<Rightarrow> disk \<Rightarrow> disk" where
  "open_w name d = d(name \<mapsto> [])"

definition append_piece :: "string \<Rightarrow> string \<Rightarrow> disk \<Rightarrow> disk" where
  "append_piece name piece d =
     (case d name of None \<Rightarrow> d(name \<mapsto> piece) | Some s \<Rightarrow> d(name \<mapsto> s @ piece))"

fun write_pieces :: "string \<Rightarrow> string list \<Rightarrow> disk \<Rightarrow> disk list" where
  "write_pieces name [] d = []"
| "write_pieces name (piece # pieces) d =
     append_piece name piece d # write_pieces name pieces (append_piece name piece d)"

text \<open>
  \<open>_save_index(index)\<close> and \<open>_save_stats(stats)\<close>:
  \<open>with open(self.index_file, 'w') as f: json.dump(index, f, indent=2)\<close>.
\<close>

definition save_index :: "string list \<Rightarrow> disk \<Rightarrow> disk list" where
  "save_index pieces d = open_w index_file d # write_pieces index_file pieces (open_w index_file d)"

definition save_stats :: "string list \<Rightarrow> disk \<Rightarrow> disk list" where
  "save_stats pieces d = open_w stats_file d # write_pieces stats_file pieces (open_w stats_file d)"

text \<open>\<open>os.replace(src, dst)\<close>: in one step \<open>dst\<close> has the bytes of \<open>src\<close>, and \<open>src\<close> is gone.\<close>

definition os_replace :: "string \<Rightarrow> string \<Rightarrow> disk \<Rightarrow> disk" where
  "os_replace src dst d = (d(dst := d src))(src := None)"

text \<open>
  \<open>_save_metadata(metadata)\<close>: \<open>tempfile.mkstemp\<close> creates an empty file under a name
  \<open>temp_path\<close> not in use, the document is written there, and \<open>os.replace\<close> moves it over
  the metadata file.
\<close>

definition save_metadata :: "string \<Rightarrow> string list \<Rightarrow> disk \<Rightarrow> disk list" where
  "save_metadata temp_path pieces d =
     (let steps = open_w temp_path d # write_pieces temp_path pieces (open_w temp_path d)
      in steps @ [os_replace temp_path metadata_file (last steps)])"

text \<open>
  A write of a document is atomic when every disk on the way holds, under the document's
  name, either what was there before or the whole new document.
\<close>

definition atomic_write :: "string \<Rightarrow> disk \<Rightarrow> string list \<Rightarrow> disk list \<Rightarrow> bool" where
  "atomic_write name d pieces steps =
     list_all (\<lambda>d'. d' name = d name \<or> d' name = Some (concat pieces)) steps"

section \<open>Safe extraction (safety.py, SafeFileOperations.safe_extract)\<close>

datatype extract_result =
    Extracted
  | Unsafe_path string
  | Archive_too_large
  | Extraction_failed

text \<open>\<open>sub in s\<close> for strings.\<close>

definition contains :: "string \<Rightarrow> string \<Rightarrow> bool" where
  "contains s sub = list_ex (\<lambda>i. take (length sub) (drop i s) = sub) [0..<Suc (length s)]"

text \<open>
  The loop over \<open>tar.getmembers()\<close>: the first member that fails a check decides the
  result. The members of an archive are regular files here, so the check of link targets
  does not come into play.
\<close>

fun check_members :: "nat \<Rightarrow> nat \<Rightarrow> tar_member list \<Rightarrow> extract_result option" where
  "check_members total_size max_size [] = None"
| "check_members total_size max_size (m # ms) =
     (if startswith (m_name m) ''/'' \<or> contains (m_name m) ''..''
      then Some (Unsafe_path (m_name m))
      else if max_size < total_size + length (m_data m) then Some Archive_too_large
      else check_members (total_size + length (m_data m)) max_size ms)"


section \<open>Incremental restore (incremental.py, IncrementalBackup.restore_incremental)\<close>

text \<open>
  The whole file system here: files under their absolute paths (the components after
  the root). \<open>tar.extractall(dest)\<close> with no filter writes a member at
  \<open>os.path.join(dest, name)\<close>: at \<open>name\<close> itself when it is absolute, and wherever the
  \<open>..\<close> components of the joined path lead.
\<close>

fun normpath :: "path \<Rightarrow> path \<Rightarrow> path" where
  "normpath acc [] = acc"
| "normpath acc (c # cs) =
     (if c = [] \<or> c = ''.'' then normpath acc cs
      else if c = ''..'' then normpath (butlast acc) cs
      else normpath (acc @ [c]) cs)"

definition join_path :: "path \<Rightarrow> string \<Rightarrow> path" where
  "join_path dest name =
     (if startswith name ''/'' then normpath [] (split_on sep name)
      else normpath dest (split_on sep name))"

definition extractall_trusted :: "path \<Rightarrow> tar_member list \<Rightarrow> tree \<Rightarrow> tree" where
  "extractall_trusted dest ms fs =
     foldl (\<lambda>fs m. put (join_path dest (m_name m))
                      \<lparr>content = m_data m, readable = True, mode = m_mode m\<rparr> fs)
       fs ms"

text \<open>
  An incremental archive: its members other than the manifest, and the \<open>deleted_files\<close>
  of its \<open>MANIFEST.json\<close> when it has one.
\<close>

record incremental_archive =
  inc_gz :: bool
  inc_deleted :: "string list option"
  inc_members :: "tar_member list"

definition is_below :: "path \<Rightarrow> path \<Rightarrow> bool" where
  "is_below dir p = (length dir < length p \<and> take (length dir) p = dir)"

text \<open>
  \<open>restore_incremental(incremental_backup, base_backup, target_dir)\<close>; \<open>temp_dir\<close> is the
  directory \<open>tempfile.mkdtemp\<close> makes. The base archive goes into the target, the
  incremental one into the temporary directory, the files the manifest names are
  unlinked, the files of the temporary directory are copied over, and the temporary
  directory is removed. \<open>Inl\<close> is the \<open>ReadError\<close> of \<open>tarfile.open(..., 'r:gz')\<close>, with the
  file system as it is then.
\<close>

definition restore_incremental ::
  "path \<Rightarrow> incremental_archive \<Rightarrow> archive \<Rightarrow> path \<Rightarrow> tree \<Rightarrow> tree + tree" where
  "restore_incremental temp_dir incremental_backup base_backup target_dir fs =
     (if \<not> gz base_backup then Inl fs
      else
        let fs1 = extractall_trusted target_dir (members base_backup) fs in
        if \<not> inc_gz incremental_backup then Inl fs1
        else
          let fs2 = extractall_trusted temp_dir (inc_members incremental_backup) fs1;
              doomed = (case inc_deleted incremental_backup of
                          None \<Rightarrow> []
                        | Some ds \<Rightarrow> map (join_path target_dir) ds);
              fs3 = filter (\<lambda>(p, f). p \<notin> set doomed) fs2;
              fs4 = foldl (\<lambda>fs (p, f).
                             put (target_dir @ drop (length temp_dir) p) f fs)
                      fs3 (filter (\<lambda>(p, f). is_below temp_dir p
                                              \<and> last p \<noteq> ''MANIFEST.json'') fs3)
          in Inr (filter (\<lambda>(p, f). \<not> is_below temp_dir p) fs4))"

section \<open>Retention (core.py, Savior._cleanup_old_backups)\<close>

text \<open>
  A naive \<open>datetime\<close>. Differences and comparisons go through the number of
  microseconds since the start of day one of the proleptic Gregorian calendar, as
  \<open>datetime.__sub__\<close> does through \<open>toordinal\<close>.
\<close>

record datetime =
  year :: nat
  month :: nat
  day :: nat
  hour :: nat
  minute :: nat
  second :: nat
  microsecond :: nat

definition is_leap :: "nat \<Rightarrow> bool" where
  "is_leap y = (if y mod 4 = 0 then (if y mod 100 = 0 then y mod 400 = 0 else True) else False)"

definition days_before_year :: "nat \<Rightarrow> nat" where
  "days_before_year y = (y - 1) * 365 + (y - 1) div 4 - (y - 1) div 100 + (y - 1) div 400"

definition days_before_month :: "nat \<Rightarrow> nat \<Rightarrow> nat" where
  "days_before_month y m =
     [0, 0, 31, 59, 90, 120, 151, 181, 212, 243, 273, 304, 334] ! m
     + (if 2 < m \<and> is_leap y then 1 else 0)"

definition toordinal :: "datetime \<Rightarrow> nat" where
  "toordinal dt = days_before_year (year dt) + days_before_month (year dt) (month dt) + day dt"

definition to_us :: "datetime \<Rightarrow> int" where
  "to_us dt =
     (((int (toordinal dt) * 24 + int (hour dt)) * 60 + int (minute dt)) * 60
        + int (second dt)) * 1000000
     + int (microsecond dt)"

definition days_us :: "nat \<Rightarrow> int" where
  "days_us n = int n * 24 * 60 * 60 * 1000000"

definition hours_us :: "nat \<Rightarrow> int" where
  "hours_us n = int n * 60 * 60 * 1000000"

text \<open>A \<open>Backup\<close> record of the metadata document.\<close>

record backup =
  timestamp :: datetime
  bpath :: string
  description :: string
  bsize :: nat

text \<open>\<open>sorted(backups, key=lambda b: b.timestamp, reverse=True)\<close>: stable, newest first.\<close>

definition newest_first :: "backup list \<Rightarrow> backup list" where
  "newest_first bs = sort_key (\<lambda>b. - to_us (timestamp b)) bs"

text \<open>
  The retention state: the backups kept so far, the archive files present on disk, and
  the count of files removed.
\<close>

type_synonym retention = "backup list \<times> string list \<times> nat"

definition unlink_backup :: "backup \<Rightarrow> retention \<Rightarrow> retention" where
  "unlink_backup b r =
     (case r of (kept, present, removed_count) \<Rightarrow>
        if bpath b \<in> set present
        then (kept, removeAll (bpath b) present, Suc removed_count)
        else r)"

definition keep_backup :: "backup \<Rightarrow> retention \<Rightarrow> retention" where
  "keep_backup b r = (case r of (kept, present, removed_count) \<Rightarrow> (kept @ [b], present, removed_count))"

text \<open>One round of the loop over the backups, newest first.\<close>

definition retention_step :: "datetime \<Rightarrow> string list \<Rightarrow> retention \<Rightarrow> backup \<Rightarrow> retention" where
  "retention_step now recent_paths r b =
     (if bpath b \<in> set recent_paths then r
      else
        let age = to_us now - to_us (timestamp b) in
        if days_us 30 < age then unlink_backup b r
        else if age < hours_us 24 then keep_backup b r
        else if age < days_us 7 \<and> hour (timestamp b) mod 6 = 0 then keep_backup b r
        else if age < days_us 30 \<and> day (timestamp b) mod 7 = 0 then keep_backup b r
        else unlink_backup b r)"

text \<open>\<open>unique_backups\<close>: the first backup of each path, in order.\<close>

fun unique_by_path :: "string list \<Rightarrow> backup list \<Rightarrow> backup list" where
  "unique_by_path seen [] = []"
| "unique_by_path seen (b # bs) =
     (if bpath b \<in> set seen then unique_by_path seen bs
      else b # unique_by_path (bpath b # seen) bs)"

text \<open>
  \<open>_cleanup_old_backups()\<close>, given the backups of the metadata document, the clock and
  the archive files on disk: the backups written back to the document, the archive files
  left, and the number removed. (The removal of a folder left empty is not modelled.)
\<close>

definition cleanup_old_backups :: "datetime \<Rightarrow> backup list \<Rightarrow> string list \<Rightarrow> retention" where
  "cleanup_old_backups now backups present =
     (let recent_backups = take 10 (newest_first backups);
          recent_paths = map bpath recent_backups
      in case foldl (retention_step now recent_paths) (recent_backups, present, 0)
                (newest_first backups) of
           (kept, present', removed_count) \<Rightarrow>
             (unique_by_path [] kept, present', removed_count))"

text \<open>
  The six-hour bucket of a timestamp: its date and which quarter of the day it is in.
\<close>

definition bucket6 :: "datetime \<Rightarrow> nat \<times> nat" where
  "bucket6 dt = (toordinal dt, hour dt div 6)"

text \<open>A timestamp on the minute, and a backup taken then under a path.\<close>

definition at :: "nat \<Rightarrow> nat \<Rightarrow> nat \<Rightarrow> nat \<Rightarrow> nat \<Rightarrow> datetime" where
  "at y mo d h mi =
     \<lparr>year = y, month = mo, day = d, hour = h, minute = mi, second = 0, microsecond = 0\<rparr>"

definition backup_at :: "datetime \<Rightarrow> string \<Rightarrow> backup" where
  "backup_at ts p = \<lparr>timestamp = ts, bpath = p, description = ''Automatic backup'', bsize = 1\<rparr>"

text \<open>
  A history for the retention pass, seen at 10:00 on 2025-09-21: one backup of the
  afternoon of the 18th, three of the hour after noon on the 19th (the watch interval is
  twenty minutes), and ten of the last ten hours.
\<close>

definition example_now :: datetime where
  "example_now = at 2025 9 21 10 0"

definition example_backups :: "backup list" where
  "example_backups =
     [backup_at (at 2025 9 18 13 5) ''o1'',
      backup_at (at 2025 9 19 12 0) ''a'',
      backup_at (at 2025 9 19 12 20) ''b'',
      backup_at (at 2025 9 19 12 40) ''c'',
      backup_at (at 2025 9 21 0 10) ''r0'',
      backup_at (at 2025 9 21 1 10) ''r1'',
      backup_at (at 2025 9 21 2 10) ''r2'',
      backup_at (at 2025 9 21 3 10) ''r3'',
      backup_at (at 2025 9 21 4 10) ''r4'',
      backup_at (at 2025 9 21 5 10) ''r5'',
      backup_at (at 2025 9 21 6 10) ''r6'',
      backup_at (at 2025 9 21 7 10) ''r7'',
      backup_at (at 2025 9 21 8 10) ''r8'',
      backup_at (at 2025 9 21 9 10) ''r9'']"

section \<open>Deduplicated restore (core_dedup.py, SaviorWithDedup.restore_backup_dedup)\<close>

text \<open>
  One round of the loop over the manifest's files: \<open>retrieve_file\<close> looks the hash up
  and copies the chunk to \<open>project_dir / file_path_str\<close>; \<open>copy\<close> is the outcome of that
  copy (\<open>mkdir\<close> of the parents, then \<open>shutil.copy2\<close>), \<open>chunk_mode\<close> the mode bits of the
  chunk file. A destination outside the project directory leaves the project's files
  as they are; the destination \<open>project_dir\<close> itself takes the chunk under the chunk's
  own file name, the hash.
\<close>

definition dedup_restore_step ::
  "(string \<Rightarrow> fs_outcome) \<Rightarrow> (string \<Rightarrow> nat) \<Rightarrow> dedup_store
     \<Rightarrow> tree \<times> nat \<times> nat \<Rightarrow> string \<times> file_meta \<Rightarrow> tree \<times> nat \<times> nat" where
  "dedup_restore_step copy chunk_mode st acc entry =
     (case acc of (t, restored, failed) \<Rightarrow>
      case entry of (file_path_str, metadata) \<Rightarrow>
        (case retrieve_file (meta_hash metadata) st of
           None \<Rightarrow> (t, restored, Suc failed)
         | Some bytes \<Rightarrow>
             (case copy file_path_str of
                Raises \<Rightarrow> (t, restored, Suc failed)
              | Succeeds \<Rightarrow>
                  let node = \<lparr>content = bytes, readable = True,
                              mode = chunk_mode (meta_hash metadata)\<rparr>
                  in (case (if startswith file_path_str ''/'' then None
                            else resolve [] (split_on sep file_path_str)) of
                        None \<Rightarrow> (t, Suc restored, failed)
                      | Some [] \<Rightarrow> (put [meta_hash metadata] node t, Suc restored, failed)
                      | Some p \<Rightarrow> (put p node t, Suc restored, failed)))))"

text \<open>
  \<open>restore_backup_dedup\<close> once the backup is found to be a deduplicated one; the manifest
  is \<open>None\<close> when \<open>load_manifest\<close> fails. The result is \<open>restored > 0\<close>.
\<close>

definition restore_backup_dedup ::
  "(string \<Rightarrow> fs_outcome) \<Rightarrow> (string \<Rightarrow> nat) \<Rightarrow> manifest option \<Rightarrow> dedup_store \<Rightarrow> tree
     \<Rightarrow> bool \<times> tree" where
  "restore_backup_dedup copy chunk_mode m st t =
     (case m of
        None \<Rightarrow> (False, t)
      | Some mf \<Rightarrow>
          (case foldl (dedup_restore_step copy chunk_mode st) (t, 0, 0) (files mf) of
             (t', restored, failed) \<Rightarrow> (0 < restored, t')))"

section \<open>Well-formed project directories and stores\<close>

text \<open>
  A file name is a non-empty string other than \<open>.\<close> and \<open>..\<close> without the separator; a
  project directory holds each path once, and every path is a non-empty list of file
  names.
\<close>

definition valid_name :: "string \<Rightarrow> bool" where
  "valid_name c = (c \<noteq> [] \<and> c \<noteq> ''.'' \<and> c \<noteq> ''..'' \<and> sep \<notin> set c)"

definition valid_path :: "path \<Rightarrow> bool" where
  "valid_path p = (p \<noteq> [] \<and> list_all valid_name p)"

definition valid_tree :: "tree \<Rightarrow> bool" where
  "valid_tree t = (distinct (map fst t) \<and> list_all (\<lambda>(p, f). valid_path p) t)"

text \<open>Every chunk file holds bytes whose digest is the name it is kept under.\<close>

definition chunk_sound :: "(string \<Rightarrow> string) \<Rightarrow> dedup_store \<Rightarrow> bool" where
  "chunk_sound H st = (\<forall>h bytes. chunks st h = Some bytes \<longrightarrow> H bytes = h)"

section \<open>Verification\<close>

lemma split_on_nonempty: "split_on c s \<noteq> []"
  by (induction s) (auto split: list.splits)

subsection \<open>Content store: the reference-count invariant\<close>



















subsection \<open>Daemon IPC: the authentication gate\<close>

lemma handle_client_no_token:
  "\<not> bears_token tok input \<Longrightarrow> snd (handle_client tok run input) = []"
  by (auto simp: bears_token_def handle_client_def split: request_input.splits json.splits)

lemma handle_client_token:
  "bears_token tok (Parsed (JObj command)) \<Longrightarrow>
   hd (snd (handle_client tok run (Parsed (JObj command)))) = Process_command command"
  by (auto simp: bears_token_def handle_client_def split: prod.splits option.splits)

text \<open>
  Claim C7. A request object whose \<open>auth\<close> field is missing or differs from the daemon's
  token is answered with the authentication failure and reaches neither
  \<open>_process_command\<close> nor any handler; no input at all that does not bear the exact
  token is dispatched; a request that bears it enters \<open>_process_command\<close>.
\<close>

theorem ipc_auth_gate:
  "(\<forall>command. map_of command ''auth'' \<noteq> Some (JStr tok) \<longrightarrow>
      handle_client tok run (Parsed (JObj command))
        = (Error_msg ''Authentication failed'', []))
   \<and> (\<forall>input. \<not> bears_token tok input \<longrightarrow> snd (handle_client tok run input) = [])
   \<and> (\<forall>input. snd (handle_client tok run input) \<noteq> [] \<longrightarrow> bears_token tok input)
   \<and> (\<forall>command. bears_token tok (Parsed (JObj command)) \<longrightarrow>
        hd (snd (handle_client tok run (Parsed (JObj command))))
          = Process_command command)"
  using handle_client_no_token[of tok _ run] handle_client_token[of tok _ run]
  by (auto simp: handle_client_def)

theorem ipc_auth_gate_witness:
  "map_of [(''type'', JStr ''stop''), (''auth'', JStr ''guess'')] ''auth''
     \<noteq> Some (JStr ''s3cret'')
   \<and> handle_client ''s3cret'' (\<lambda>_. Some (JObj []))
        (Parsed (JObj [(''type'', JStr ''stop''), (''auth'', JStr ''guess'')]))
       = (Error_msg ''Authentication failed'', [])
   \<and> \<not> bears_token ''s3cret'' (Parsed (JObj [(''type'', JStr ''stop'')]))
   \<and> snd (handle_client ''s3cret'' (\<lambda>_. Some (JObj []))
        (Parsed (JObj [(''type'', JStr ''stop'')]))) = []
   \<and> bears_token ''s3cret''
        (Parsed (JObj [(''type'', JStr ''stop''), (''auth'', JStr ''s3cret'')]))
   \<and> handle_client ''s3cret'' (\<lambda>_. Some (JObj []))
        (Parsed (JObj [(''type'', JStr ''stop''), (''auth'', JStr ''s3cret'')]))
       = (Status_stopping,
          [Process_command [(''type'', JStr ''stop''), (''auth'', JStr ''s3cret'')],
           Handler Stop])"
proof -
  have a: "map_of [(''type'', JStr ''stop''), (''auth'', JStr ''guess'')] ''auth''
             \<noteq> Some (JStr ''s3cret'')" by simp
  have b: "\<not> bears_token ''s3cret'' (Parsed (JObj [(''type'', JStr ''stop'')]))"
    by (simp add: bears_token_def)
  have c: "bears_token ''s3cret''
        (Parsed (JObj [(''type'', JStr ''stop''), (''auth'', JStr ''s3cret'')]))"
    by (simp add: bears_token_def)
  have d: "handle_client ''s3cret'' (\<lambda>_. Some (JObj []))
        (Parsed (JObj [(''type'', JStr ''stop''), (''auth'', JStr ''s3cret'')]))
       = (Status_stopping,
          [Process_command [(''type'', JStr ''stop''), (''auth'', JStr ''s3cret'')],
           Handler Stop])"
    by (simp add: handle_client_def process_command_def)
  from ipc_auth_gate[of "''s3cret''" "\<lambda>_. Some (JObj [])"] a b c d
  show ?thesis by blast
qed

subsection \<open>Paths\<close>

lemma split_on_append:
  "split_on c (a @ c # b) = split_on c a @ split_on c b"
  by (induction a) (auto simp: split_on_nonempty split: list.splits)

lemma split_on_no_sep: "c \<notin> set s \<Longrightarrow> split_on c s = [s]"
  by (induction s) auto

lemma split_on_path_str:
  "q \<noteq> [] \<Longrightarrow> split_on sep (path_str q) = concat (map (split_on sep) q)"
  by (induction q rule: path_str.induct) (auto simp: split_on_append)

lemma component_in_split:
  assumes "x \<in> set q" and "sep \<notin> set x"
  shows "x \<in> set (split_on sep (path_str q))"
proof -
  from assms(1) have "q \<noteq> []" by auto
  moreover have "x \<in> set (split_on sep x)"
    using assms(2) by (simp add: split_on_no_sep)
  ultimately show ?thesis
    using assms(1) by (auto simp: split_on_path_str)
qed

subsection \<open>Ignore engine: the backup store is never collected\<close>


lemma should_ignore_dir_pattern:
  assumes "d @ ''/'' \<in> set patterns" and "d \<in> set (split_on sep path)"
  shows "should_ignore fnmatch patterns path"
  using assms by (induction patterns) (auto simp: endswith_def)

lemma should_ignore_savior:
  assumes "''.savior/'' \<in> set patterns" and "''.savior'' \<in> set q"
  shows "should_ignore fnmatch patterns (path_str q)"
proof -
  have "''.savior'' \<in> set (split_on sep (path_str q))"
    using assms(2) by (intro component_in_split) (simp_all add: sep_def)
  with assms(1) show ?thesis
    using should_ignore_dir_pattern[of "''.savior''" patterns "path_str q" fnmatch] by simp
qed

lemma walk_enters_no_savior:
  assumes pat: "''.savior/'' \<in> set patterns"
    and w: "walk_enters (should_ignore fnmatch patterns) root"
  shows "''.savior'' \<notin> set root"
proof
  assume in_root: "''.savior'' \<in> set root"
  then have ne: "root \<noteq> []" by auto
  then have "length root \<in> set [1..<Suc (length root)]" by (cases root) auto
  with w have "\<not> should_ignore fnmatch patterns (path_str (take (length root) root))"
    unfolding walk_enters_def list_all_iff by blast
  with should_ignore_savior[OF pat in_root, of fnmatch] show False by simp
qed






subsection \<open>Smart deduplication policy\<close>

lemma should_deduplicate_iff:
  "should_deduplicate st name \<longleftrightarrow>
     (\<exists>sz. st = Inr sz \<and> 1024 \<le> sz) \<and> lower (suffix name) \<notin> set SKIP_DEDUP_EXTENSIONS"
  by (auto simp: should_deduplicate_def MIN_DEDUP_SIZE_def split: sum.splits)

lemma dedup_step_files:
  "x \<in> set (fst (dedup_step H copy bid t acc p)) \<Longrightarrow>
     x \<in> set (fst acc) \<or> (fst x = path_str p \<and> eligible t p)"
  by (auto simp: dedup_step_def eligible_def should_deduplicate_iff MIN_DEDUP_SIZE_def
      split: option.splits prod.splits if_splits)

lemma dedup_step_ineligible: "\<not> eligible t p \<Longrightarrow> dedup_step H copy bid t acc p = acc"
  by (auto simp: dedup_step_def eligible_def should_deduplicate_iff MIN_DEDUP_SIZE_def
      split: option.splits)

lemma dedup_fold_files:
  "x \<in> set (fst (foldl (dedup_step H copy bid t) acc ps)) \<Longrightarrow>
     x \<in> set (fst acc) \<or> (\<exists>p \<in> set ps. fst x = path_str p \<and> eligible t p)"
proof (induction ps arbitrary: acc)
  case Nil
  then show ?case by simp
next
  case (Cons p ps)
  from Cons.IH[of "dedup_step H copy bid t acc p"] Cons.prems
  have "x \<in> set (fst (dedup_step H copy bid t acc p))
        \<or> (\<exists>p \<in> set ps. fst x = path_str p \<and> eligible t p)" by simp
  then show ?case
    using dedup_step_files[of x H copy bid t acc p] by auto
qed

lemma create_backup_dedup_files:
  assumes "create_backup_dedup fnmatch patterns has_space H copy bid t st = Some (m, st')"
    and "x \<in> set (files m)"
  shows "\<exists>p \<in> set (collect_files fnmatch patterns t). fst x = path_str p \<and> eligible t p"
proof -
  from assms(1) have "files m
      = fst (foldl (dedup_step H copy bid t) ([], st) (collect_files fnmatch patterns t))"
    by (auto simp: create_backup_dedup_def Let_def split: if_splits prod.splits)
  with assms(2)
    dedup_fold_files[of x H copy bid t "([], st)" "collect_files fnmatch patterns t"]
  show ?thesis by simp
qed

text \<open>
  Claim C8. \<open>should_deduplicate\<close> returns true exactly when the file's size can be read
  and is at least 1024 bytes and its extension, lowered, is not in the skip set. A file
  failing either test leaves the content store and the manifest of
  \<open>create_backup_dedup\<close> untouched, and every entry of a manifest belongs to a collected
  file that passes both tests.
\<close>

theorem dedup_eligibility:
  "(should_deduplicate sz_result name \<longleftrightarrow>
      (\<exists>sz. sz_result = Inr sz \<and> 1024 \<le> sz)
      \<and> lower (suffix name) \<notin> set SKIP_DEDUP_EXTENSIONS)
   \<and> (\<forall>acc p. \<not> eligible t p \<longrightarrow> dedup_step H copy bid t acc p = acc)
   \<and> (\<forall>m st' x.
        create_backup_dedup fnmatch patterns has_space H copy bid t st = Some (m, st')
        \<and> x \<in> set (files m) \<longrightarrow>
        (\<exists>p \<in> set (collect_files fnmatch patterns t).
           fst x = path_str p \<and> eligible t p))"
  using should_deduplicate_iff[of sz_result name] dedup_step_ineligible[of t _ H copy bid]
    create_backup_dedup_files[of fnmatch patterns has_space H copy bid t st]
  by blast

theorem dedup_eligibility_witness:
  "should_deduplicate (Inr 1024) ''main.py''
   \<and> \<not> should_deduplicate (Inr 1023) ''main.py''
   \<and> \<not> should_deduplicate (Inr 2048) ''photo.JPG''
   \<and> \<not> should_deduplicate (Inl OSError) ''main.py''
   \<and> \<not> eligible [([''a.txt''], \<lparr>content = ''hello'', readable = True, mode = 420\<rparr>)]
         [''a.txt'']
   \<and> dedup_step (\<lambda>s. s) (\<lambda>_. Succeeds) ''b1''
        [([''a.txt''], \<lparr>content = ''hello'', readable = True, mode = 420\<rparr>)]
        ([], init_store) [''a.txt''] = ([], init_store)"
proof -
  have sfx: "lower (suffix ''main.py'') = ''.py''" "lower (suffix ''photo.JPG'') = ''.jpg''"
    by code_simp+
  have ne: "\<not> eligible [([''a.txt''], \<lparr>content = ''hello'', readable = True, mode = 420\<rparr>)]
         [''a.txt'']"
    by (simp add: eligible_def MIN_DEDUP_SIZE_def)
  show ?thesis
    using dedup_eligibility[of "Inr 1024" "''main.py''"
        "[([''a.txt''], \<lparr>content = ''hello'', readable = True, mode = 420\<rparr>)]"
        "\<lambda>s. s" "\<lambda>_. Succeeds" "''b1''" "\<lambda>n p. n = p" "[]" True init_store]
      dedup_eligibility[of "Inr 1023" "''main.py''"]
      dedup_eligibility[of "Inr 2048" "''photo.JPG''"]
      dedup_eligibility[of "Inl OSError" "''main.py''"]
      ne sfx
    by (simp add: SKIP_DEDUP_EXTENSIONS_def)
qed

subsection \<open>Restore: the backup directory\<close>













subsection \<open>Incremental differ\<close>

lemma changed_step_no_project_dir:
  "project_dir self = None \<Longrightarrow> changed_step self H mtime acc file = acc"
  by (simp add: changed_step_def split: prod.splits)

lemma changed_fold_no_project_dir:
  "project_dir self = None \<Longrightarrow> foldl (changed_step self H mtime) acc file_list = acc"
  by (induction file_list arbitrary: acc) (simp_all add: changed_step_no_project_dir)

lemma find_changed_files_after_init:
  "find_changed_files H mtime (incremental_init dir loaded) file_list
     = (([], [], map fst loaded), incremental_init dir [])"
  by (simp add: find_changed_files_def incremental_init_def changed_fold_no_project_dir)

text \<open>
  Claim C1 against the code. A first call on the files \<open>a.txt\<close> and \<open>g.txt\<close> of a project
  leaves an empty index, and after \<open>a.txt\<close> is modified and \<open>g.txt\<close> deleted the next call
  reports nothing added, nothing modified and nothing deleted: every round of the loop
  ends in the \<open>AttributeError\<close> of \<open>self.project_dir\<close>.
\<close>

theorem find_changed_files_reports_nothing:
  "find_changed_files (\<lambda>s. s) (\<lambda>_. 0) (incremental_init [''/'', ''p'', ''.savior''] [])
     [([''/'', ''p'', ''a.txt''], \<lparr>content = ''one'', readable = True, mode = 420\<rparr>),
      ([''/'', ''p'', ''g.txt''], \<lparr>content = ''two'', readable = True, mode = 420\<rparr>)]
     = (([], [], []), incremental_init [''/'', ''p'', ''.savior''] [])
   \<and> find_changed_files (\<lambda>s. s) (\<lambda>_. 1) (incremental_init [''/'', ''p'', ''.savior''] [])
     [([''/'', ''p'', ''a.txt''], \<lparr>content = ''changed'', readable = True, mode = 420\<rparr>)]
     = (([], [], []), incremental_init [''/'', ''p'', ''.savior''] [])"
  by (simp add: find_changed_files_after_init)

subsection \<open>Persistence of the documents\<close>

lemma write_pieces_other:
  "name \<noteq> other \<Longrightarrow> d' \<in> set (write_pieces name pieces d) \<Longrightarrow> d' other = d other"
  by (induction name pieces d rule: write_pieces.induct)
     (auto simp: append_piece_def split: option.splits)

lemma last_write_pieces:
  "d name = Some s \<Longrightarrow> last (d # write_pieces name pieces d) name = Some (s @ concat pieces)"
  by (induction name pieces d arbitrary: s rule: write_pieces.induct)
     (auto simp: append_piece_def)

lemma save_metadata_atomic:
  assumes "temp_path \<noteq> metadata_file"
  shows "atomic_write metadata_file d pieces (save_metadata temp_path pieces d)"
proof -
  let ?d0 = "open_w temp_path d"
  let ?steps = "?d0 # write_pieces temp_path pieces ?d0"
  have a: "d' metadata_file = d metadata_file" if "d' \<in> set ?steps" for d'
    using that assms write_pieces_other[of temp_path metadata_file d' pieces ?d0]
    by (auto simp: open_w_def)
  have "last ?steps temp_path = Some ([] @ concat pieces)"
    by (rule last_write_pieces) (simp add: open_w_def)
  then have b: "os_replace temp_path metadata_file (last ?steps) metadata_file
                = Some (concat pieces)"
    using assms by (simp add: os_replace_def)
  show ?thesis
    unfolding atomic_write_def save_metadata_def Let_def list_all_iff
    using a b by auto
qed

text \<open>
  Claim C5 against the code. \<open>_save_index\<close> and \<open>_save_stats\<close> open the document itself
  for writing: with an index on disk, the first step leaves the index file empty and the
  next a prefix of the new document, so the write is not atomic. \<open>_save_metadata\<close>, the
  sibling in core.py, writes a temporary file and renames it, and is atomic.
\<close>

theorem save_index_not_atomic:
  "(save_index [''{'', ''}''] [index_file \<mapsto> ''{1}''] ! 0) index_file = Some ''''
   \<and> (save_index [''{'', ''}''] [index_file \<mapsto> ''{1}''] ! 1) index_file = Some ''{''
   \<and> \<not> atomic_write index_file [index_file \<mapsto> ''{1}''] [''{'', ''}'']
         (save_index [''{'', ''}''] [index_file \<mapsto> ''{1}''])
   \<and> \<not> atomic_write stats_file [stats_file \<mapsto> ''{1}''] [''{'', ''}'']
         (save_stats [''{'', ''}''] [stats_file \<mapsto> ''{1}''])
   \<and> atomic_write metadata_file [metadata_file \<mapsto> ''{1}''] [''{'', ''}'']
         (save_metadata ''.metadata_x.tmp'' [''{'', ''}''] [metadata_file \<mapsto> ''{1}''])"
  by (simp add: save_index_def save_stats_def save_metadata_def atomic_write_def open_w_def
      append_piece_def os_replace_def index_file_def stats_file_def metadata_file_def)

subsection \<open>Path traversal\<close>


lemma check_members_never_extracted: "check_members n mx ms \<noteq> Some Extracted"
  by (induction n mx ms rule: check_members.induct) auto











text \<open>
  \<open>restore_incremental\<close> extracts with no filter: a base archive with the member
  \<open>../../../etc/passwd\<close>, restored into \<open>/home/u/proj\<close>, writes \<open>/etc/passwd\<close>.
\<close>

lemma restore_incremental_writes_outside:
  "restore_incremental [''tmp'', ''savior_incremental_x'']
     \<lparr>inc_gz = True, inc_deleted = Some [], inc_members = []\<rparr>
     \<lparr>gz = True,
      members = [\<lparr>m_name = ''../../../etc/passwd'', m_data = ''evil'', m_mode = 420\<rparr>]\<rparr>
     [''home'', ''u'', ''proj''] []
   = Inr [([''etc'', ''passwd''], \<lparr>content = ''evil'', readable = True, mode = 420\<rparr>)]"
  by (simp add: restore_incremental_def extractall_trusted_def join_path_def startswith_def
      sep_def is_below_def)

subsection \<open>Retention\<close>

lemma to_us_at:
  "to_us (at 2025 9 d h mi)
     = (((int (739494 + d) * 24 + int h) * 60 + int mi) * 60) * 1000000"
  by (simp add: to_us_def toordinal_def at_def days_before_year_def days_before_month_def
      is_leap_def)

lemma backup_at_sel: "timestamp (backup_at t p) = t" "bpath (backup_at t p) = p"
  by (simp_all add: backup_at_def)

lemma at_sel: "hour (at y mo d h mi) = h" "day (at y mo d h mi) = d"
  by (simp_all add: at_def)

lemma example_newest_first: "newest_first example_backups = rev example_backups"
  by (simp add: newest_first_def example_backups_def backup_at_sel to_us_at)

lemma example_recent_paths:
  "map bpath (take 10 (rev example_backups))
     = [''r9'', ''r8'', ''r7'', ''r6'', ''r5'', ''r4'', ''r3'', ''r2'', ''r1'', ''r0'']"
  by (simp add: example_backups_def backup_at_sel)

lemma example_loop:
  "foldl (retention_step example_now
            [''r9'', ''r8'', ''r7'', ''r6'', ''r5'', ''r4'', ''r3'', ''r2'', ''r1'', ''r0''])
      (take 10 (rev example_backups), map bpath example_backups, 0) (rev example_backups)
   = (take 10 (rev example_backups)
        @ [backup_at (at 2025 9 19 12 40) ''c'', backup_at (at 2025 9 19 12 20) ''b'',
           backup_at (at 2025 9 19 12 0) ''a''],
      [''a'', ''b'', ''c'', ''r0'', ''r1'', ''r2'', ''r3'', ''r4'', ''r5'', ''r6'', ''r7'',
       ''r8'', ''r9''],
      1)"
  by (simp add: example_backups_def example_now_def backup_at_sel to_us_at at_sel
      retention_step_def keep_backup_def unlink_backup_def days_us_def hours_us_def Let_def)

lemma example_unique:
  "unique_by_path []
     (take 10 (rev example_backups)
        @ [backup_at (at 2025 9 19 12 40) ''c'', backup_at (at 2025 9 19 12 20) ''b'',
           backup_at (at 2025 9 19 12 0) ''a''])
   = [backup_at (at 2025 9 21 9 10) ''r9'', backup_at (at 2025 9 21 8 10) ''r8'',
      backup_at (at 2025 9 21 7 10) ''r7'', backup_at (at 2025 9 21 6 10) ''r6'',
      backup_at (at 2025 9 21 5 10) ''r5'', backup_at (at 2025 9 21 4 10) ''r4'',
      backup_at (at 2025 9 21 3 10) ''r3'', backup_at (at 2025 9 21 2 10) ''r2'',
      backup_at (at 2025 9 21 1 10) ''r1'', backup_at (at 2025 9 21 0 10) ''r0'',
      backup_at (at 2025 9 19 12 40) ''c'', backup_at (at 2025 9 19 12 20) ''b'',
      backup_at (at 2025 9 19 12 0) ''a'']"
  by (simp add: example_backups_def backup_at_sel)

lemma example_cleanup:
  "cleanup_old_backups example_now example_backups (map bpath example_backups)
   = ([backup_at (at 2025 9 21 9 10) ''r9'', backup_at (at 2025 9 21 8 10) ''r8'',
       backup_at (at 2025 9 21 7 10) ''r7'', backup_at (at 2025 9 21 6 10) ''r6'',
       backup_at (at 2025 9 21 5 10) ''r5'', backup_at (at 2025 9 21 4 10) ''r4'',
       backup_at (at 2025 9 21 3 10) ''r3'', backup_at (at 2025 9 21 2 10) ''r2'',
       backup_at (at 2025 9 21 1 10) ''r1'', backup_at (at 2025 9 21 0 10) ''r0'',
       backup_at (at 2025 9 19 12 40) ''c'', backup_at (at 2025 9 19 12 20) ''b'',
       backup_at (at 2025 9 19 12 0) ''a''],
      [''a'', ''b'', ''c'', ''r0'', ''r1'', ''r2'', ''r3'', ''r4'', ''r5'', ''r6'', ''r7'',
       ''r8'', ''r9''],
      1)"
  unfolding cleanup_old_backups_def Let_def example_newest_first example_recent_paths
    example_loop
  by (simp only: prod.case example_unique)

lemma bucket6_at: "bucket6 (at 2025 9 d h mi) = (739494 + d, h div 6)"
  by (simp add: bucket6_def toordinal_def at_def days_before_year_def days_before_month_def
      is_leap_def)

text \<open>
  Claim C4 against the code. In the example history the three backups of 12:00, 12:20
  and 12:40 on the 19th, between one and seven days old and all in one six-hour bucket,
  are all kept, and the backup of 13:05 on the 18th, the only one of its bucket, is
  removed: the pass keeps every backup whose hour is a multiple of six, not one per
  bucket.
\<close>

theorem retention_keeps_by_hour_not_by_bucket:
  "map bpath (fst (cleanup_old_backups example_now example_backups
                     (map bpath example_backups)))
     = [''r9'', ''r8'', ''r7'', ''r6'', ''r5'', ''r4'', ''r3'', ''r2'', ''r1'', ''r0'',
        ''c'', ''b'', ''a'']
   \<and> hours_us 24 < to_us example_now - to_us (at 2025 9 19 12 40)
   \<and> to_us example_now - to_us (at 2025 9 18 13 5) < days_us 7
   \<and> bucket6 (at 2025 9 19 12 0) = bucket6 (at 2025 9 19 12 20)
   \<and> bucket6 (at 2025 9 19 12 20) = bucket6 (at 2025 9 19 12 40)
   \<and> length (filter (\<lambda>b. bucket6 (timestamp b) = bucket6 (at 2025 9 19 12 0))
         (fst (cleanup_old_backups example_now example_backups
                 (map bpath example_backups)))) = 3
   \<and> filter (\<lambda>b. bucket6 (timestamp b) = bucket6 (at 2025 9 18 13 5))
         (fst (cleanup_old_backups example_now example_backups
                 (map bpath example_backups))) = []"
  unfolding example_cleanup
  by (simp add: backup_at_sel bucket6_at example_now_def to_us_at days_us_def hours_us_def)

end
